theory Spec2Isabelle
  imports Complex_Main
begin

section \<open>Health checker: a shallow embedding\<close>

text \<open>
  The health checker is a scheduled job (package \<^verbatim>\<open>health_checker\<close>): for each monitored
  function it reads the prior day's rows of the audit table, flags the failed ones
  (\<^verbatim>\<open>utils.query_parser\<close>), computes their share (\<^verbatim>\<open>utils.threshold_checker\<close>) and
  publishes a warning when the share reaches the threshold.

  Conventions of the embedding.
  \<^item> A Python function that touches the outside (pool, database, clock, SNS, secrets) takes
    the \<open>world\<close> and returns a result together with the new world; a raised exception is
    \<open>Inl\<close> of the exception, a returned value \<open>Inr\<close> of the value.
  \<^item> The logger only writes text; log lines are not part of the model. The clock readings
    made while a log line is formatted are.
  \<^item> Strings are byte strings and the texts handled here (status names, schedule
    expressions) are taken to be ASCII: \<^verbatim>\<open>str.upper\<close> is modelled on the ASCII letters.
\<close>

subsection \<open>Exceptions\<close>

datatype exn =
    DatabaseError                 \<comment> \<open>\<^verbatim>\<open>database.DatabaseError\<close>, the package's own class\<close>
  | SecretError string            \<comment> \<open>\<^verbatim>\<open>secrets.SecretError\<close>\<close>
  | RuntimeError                  \<comment> \<open>raised by \<^verbatim>\<open>contextlib\<close> when a generator does not yield\<close>
  | ZeroDivisionError
  | NotImplementedError
  | IndexError
  | KeyError string
  | ValueError
  | LibraryError string           \<comment> \<open>anything raised by a client library (MySQL driver, boto3)\<close>

subsection \<open>Python string helpers\<close>

definition upper_char :: "char \<Rightarrow> char" where
  "upper_char c =
     (let n = of_char c :: nat in if 97 \<le> n \<and> n \<le> 122 then char_of (n - 32) else c)"

definition upper :: "string \<Rightarrow> string" where
  \<comment> \<open>\<^verbatim>\<open>str.upper()\<close> on ASCII text\<close>
  "upper s = map upper_char s"

fun digits :: "nat \<Rightarrow> string" where
  "digits n =
     (if n < 10 then [char_of (48 + n)] else digits (n div 10) @ [char_of (48 + n mod 10)])"

declare digits.simps [simp del]

definition str_int :: "int \<Rightarrow> string" where
  \<comment> \<open>\<^verbatim>\<open>str(i)\<close> of a Python int, as an f-string prints it\<close>
  "str_int i = (if i < 0 then CHR ''-'' # digits (nat (- i)) else digits (nat i))"

subsection \<open>Audit rows and their classification (\<^verbatim>\<open>utils.query_parser\<close>)\<close>

text \<open>
  One record of the table \<^verbatim>\<open>runAudits\<close>, as the dictionary cursor returns it. A datetime is
  a number of seconds since the Unix epoch, in UTC.
\<close>

record AuditRow =
  run_id :: int
  function_name :: string
  function_start_time :: int
  records_written :: int
  records_read :: int
  status :: string

text \<open>An entry of \<^verbatim>\<open>errored_rows\<close>: the two-element list \<^verbatim>\<open>[run_id, reason]\<close>.\<close>

type_synonym ErrorEntry = "int \<times> string"

definition mismatch_reason :: "AuditRow \<Rightarrow> string" where
  "mismatch_reason row_data =
     ''Records read != records written: '' @ str_int (records_written row_data) @
     '' != '' @ str_int (records_read row_data)"

definition status_reason :: "AuditRow \<Rightarrow> string" where
  "status_reason row_data = ''Status was not successful: '' @ status row_data"

text \<open>The body of the \<^verbatim>\<open>for row_data in query_result\<close> loop.\<close>

definition query_parser_step :: "ErrorEntry list \<Rightarrow> AuditRow \<Rightarrow> ErrorEntry list" where
  "query_parser_step errored_rows row_data =
     (if records_written row_data \<noteq> records_read row_data
      then errored_rows @ [(run_id row_data, mismatch_reason row_data)]
      else if upper (status row_data) \<noteq> ''SUCCESS_WITH_DATA''
              \<and> upper (status row_data) \<noteq> ''SUCCESS_NO_DATA''
      then errored_rows @ [(run_id row_data, status_reason row_data)]
      else errored_rows)"

definition query_parser :: "AuditRow list \<Rightarrow> string \<Rightarrow> ErrorEntry list" where
  "query_parser query_result fn = foldl query_parser_step [] query_result"

subsection \<open>The classification as the specification words it\<close>

text \<open>
  The specification compares the status ``case-insensitively'' with the two success
  statuses. Two texts are equal up to case when they agree after lower-casing; this
  definition does not mention \<open>upper\<close>.
\<close>

definition lower_char :: "char \<Rightarrow> char" where
  "lower_char c =
     (let n = of_char c :: nat in if 65 \<le> n \<and> n \<le> 90 then char_of (n + 32) else c)"

definition ci_equal :: "string \<Rightarrow> string \<Rightarrow> bool" where
  "ci_equal s t = (map lower_char s = map lower_char t)"

datatype verdict = Mismatch | Non_success_status | Passes

definition classify_row :: "AuditRow \<Rightarrow> verdict" where
  "classify_row r =
     (if records_written r \<noteq> records_read r then Mismatch
      else if ci_equal (status r) ''SUCCESS_WITH_DATA'' then Passes
      else if ci_equal (status r) ''SUCCESS_NO_DATA'' then Passes
      else Non_success_status)"

definition flagged :: "AuditRow \<Rightarrow> bool" where
  "flagged r = (classify_row r \<noteq> Passes)"

text \<open>What one row adds to the accumulator, read off the verdict.\<close>

definition entries_of :: "AuditRow \<Rightarrow> ErrorEntry list" where
  "entries_of r =
     (case classify_row r of
        Mismatch \<Rightarrow> [(run_id r, mismatch_reason r)]
      | Non_success_status \<Rightarrow> [(run_id r, status_reason r)]
      | Passes \<Rightarrow> [])"


subsection \<open>Dates (\<^verbatim>\<open>datetime.strftime("%Y-%m-%d")\<close>)\<close>

text \<open>
  The calendar date of a day number (days since 1970-01-01) in the proleptic Gregorian
  calendar, which is the calendar of Python's \<^verbatim>\<open>datetime\<close>. Years are printed with four
  digits and months and days with two, as \<^verbatim>\<open>%Y-%m-%d\<close> does for the years 1000 to 9999.
\<close>

definition civil_from_days :: "int \<Rightarrow> int \<times> int \<times> int" where
  "civil_from_days days =
     (let z = days + 719468;
          era = z div 146097;
          doe = z - era * 146097;
          yoe = (doe - doe div 1460 + doe div 36524 - doe div 146096) div 365;
          doy = doe - (365 * yoe + yoe div 4 - yoe div 100);
          mp = (5 * doy + 2) div 153;
          d = doy - (153 * mp + 2) div 5 + 1;
          m = (if mp < 10 then mp + 3 else mp - 9);
          y = yoe + era * 400 + (if m \<le> 2 then 1 else 0)
      in (y, m, d))"

definition zfill :: "nat \<Rightarrow> string \<Rightarrow> string" where
  "zfill n s = replicate (n - length s) (CHR ''0'') @ s"

definition strftime_Ymd :: "int \<Rightarrow> string" where
  "strftime_Ymd t =
     (case civil_from_days (t div 86400) of
        (y, m, d) \<Rightarrow> zfill 4 (str_int y) @ ''-'' @ zfill 2 (str_int m) @ ''-'' @ zfill 2 (str_int d))"

subsection \<open>The world: module state and the services the job talks to\<close>

record db_config =
  host :: string
  user :: string
  password :: string
  database :: string

text \<open>The arguments \<^verbatim>\<open>init_pool\<close> passes to \<^verbatim>\<open>MySQLConnectionPool\<close>.\<close>

record pool =
  pool_name :: string
  pool_size :: int
  pool_kwargs :: db_config
  autocommit :: bool
  charset :: string

datatype connection = Connection nat

datatype cursor = Cursor connection

datatype db_event =
    GetConnection connection
  | OpenCursor connection
  | Execute string string         \<comment> \<open>the two parameters of the SELECT\<close>
  | FetchAll
  | CloseCursor connection
  | Commit connection
  | Rollback connection
  | CloseConnection connection

record sns_request =
  TopicArn :: string
  Message :: string
  Subject :: string

datatype secret_response =
    ResourceNotFoundException
  | OtherFailure
  | SecretString "(string \<times> string) list"     \<comment> \<open>the JSON object, parsed\<close>

text \<open>
  The first group of fields is state the program writes. The second group is the
  environment, which the program only reads: the clock (\<open>clock w k\<close> is the \<open>k\<close>-th reading
  of \<^verbatim>\<open>datetime.now(timezone.utc)\<close>), the outcome of the SELECT for a function name and a
  date pattern, the outcome of building the pool, the secret store, the scheduler, the
  outcome of the SNS publish call for a request (\<open>None\<close> when SNS accepts it), the
  environment variable \<^verbatim>\<open>DB_POOL_SIZE\<close> (with the outcome of \<^verbatim>\<open>int\<close> on its text) and
  Python's printing of a float. The error rate is the exact quotient; \<open>float_str\<close> prints
  the float nearest to it.
\<close>

record world =
  POOL :: "pool option"
  in_use :: nat
  db_log :: "db_event list"
  published :: "sns_request list"
  clock_reads :: nat
  secret_cache :: "(string \<times> (string \<times> string) list) option"
  clock :: "nat \<Rightarrow> int"
  select_runAudits :: "string \<Rightarrow> string \<Rightarrow> exn + AuditRow list"
  pool_connect :: "pool \<Rightarrow> exn option"
  get_secret_value :: "string \<Rightarrow> secret_response"
  get_schedule :: "string \<Rightarrow> exn + (string \<times> string) list"
  sns_publish :: "sns_request \<Rightarrow> exn option"
  env_DB_POOL_SIZE :: "(exn + int) option"
  float_str :: "rat \<Rightarrow> string"

type_synonym 'a prog = "world \<Rightarrow> (exn + 'a) \<times> world"

text \<open>Statement sequencing: the second statement runs only if the first did not raise.\<close>

definition seq :: "'a prog \<Rightarrow> 'b prog \<Rightarrow> 'b prog" where
  "seq m k w = (case m w of (Inl e, w1) \<Rightarrow> (Inl e, w1) | (Inr _, w1) \<Rightarrow> k w1)"

subsection \<open>Configuration (\<^verbatim>\<open>config.py\<close>)\<close>

definition DATABASE_SECRET :: string where
  "DATABASE_SECRET = ''db_creds''"

definition ACCEPTABLE_ERROR_THRESHOLD :: rat where
  "ACCEPTABLE_ERROR_THRESHOLD = 8 / 10"

definition EMAIL_TOPIC_ARN :: string where
  "EMAIL_TOPIC_ARN = ''arn:aws:sns:ap-southeast-2:542726313726:Email_Alerts''"

definition SCHEDULE_NAME :: string where
  "SCHEDULE_NAME = ''3_min_schedule''"

definition FUNCTIONS_TO_CHECK :: "string list" where
  "FUNCTIONS_TO_CHECK = [''ENWL_power_scraper'', ''live_station_scraper'']"

subsection \<open>Clock and notification (\<^verbatim>\<open>utils.get_current_UTC_date\<close>, \<^verbatim>\<open>notification.py\<close>)\<close>

definition now_utc :: "world \<Rightarrow> int \<times> world" where
  "now_utc w = (clock w (clock_reads w), w\<lparr>clock_reads := Suc (clock_reads w)\<rparr>)"

definition get_current_UTC_date :: "world \<Rightarrow> string \<times> world" where
  "get_current_UTC_date w = (case now_utc w of (t, w1) \<Rightarrow> (strftime_Ymd t, w1))"

text \<open>
  The keyword arguments of \<^verbatim>\<open>_SNS_CLIENT.publish\<close>, and the call, which is not guarded: what
  the client raises, \<open>publish_to_topic\<close> raises. \<open>published\<close> holds the requests SNS accepted.
\<close>

definition publish_request :: "string \<Rightarrow> rat \<Rightarrow> string \<Rightarrow> string \<Rightarrow> world \<Rightarrow> sns_request" where
  "publish_request topic_ARN error_rate date fn w =
     \<lparr>TopicArn = topic_ARN,
      Message = ''Error rate on for '' @ fn @ '' '' @ date @ '' of '' @
                float_str w error_rate @ '' exceeded acceptable threshold of '' @
                float_str w ACCEPTABLE_ERROR_THRESHOLD,
      Subject = ''Health checker warning '' @ date\<rparr>"

definition publish_to_topic :: "string \<Rightarrow> rat \<Rightarrow> string \<Rightarrow> string \<Rightarrow> unit prog" where
  "publish_to_topic topic_ARN error_rate date fn w =
     (case sns_publish w (publish_request topic_ARN error_rate date fn w) of
        Some e \<Rightarrow> (Inl e, w)
      | None \<Rightarrow>
          (Inr (),
           w\<lparr>published := published w @ [publish_request topic_ARN error_rate date fn w]\<rparr>))"

subsection \<open>Error rate and threshold (\<^verbatim>\<open>utils.threshold_checker\<close>)\<close>

text \<open>Line 98: \<^verbatim>\<open>len(errored_rows) / len(query_result)\<close>; Python raises on a zero divisor.\<close>

definition error_rate :: "ErrorEntry list \<Rightarrow> AuditRow list \<Rightarrow> exn + rat" where
  "error_rate errored_rows query_result =
     (if length query_result = 0 then Inl ZeroDivisionError
      else Inr (of_nat (length errored_rows) / of_nat (length query_result)))"

text \<open>
  In the branch that notifies, the date is read twice: once for the warning that is
  logged, once for the argument of \<^verbatim>\<open>publish_to_topic\<close>. The other branch reads it once,
  for its log line.
\<close>

definition threshold_checker :: "ErrorEntry list \<Rightarrow> AuditRow list \<Rightarrow> string \<Rightarrow> unit prog" where
  "threshold_checker errored_rows query_result fn w =
     (case error_rate errored_rows query_result of
        Inl e \<Rightarrow> (Inl e, w)
      | Inr rate \<Rightarrow>
          if rate \<ge> ACCEPTABLE_ERROR_THRESHOLD
          then (case get_current_UTC_date w of
                  (logged_date, w1) \<Rightarrow>
                    (case get_current_UTC_date w1 of
                       (date, w2) \<Rightarrow> publish_to_topic EMAIL_TOPIC_ARN rate date fn w2))
          else (case get_current_UTC_date w of (logged_date, w1) \<Rightarrow> (Inr (), w1)))"

subsection \<open>Database access (\<^verbatim>\<open>database.py\<close>)\<close>

definition log_db :: "db_event \<Rightarrow> world \<Rightarrow> world" where
  "log_db ev w = w\<lparr>db_log := db_log w @ [ev]\<rparr>"

text \<open>
  \<^verbatim>\<open>int(os.getenv("DB_POOL_SIZE", 4))\<close>, then the pool is built; the module variable is
  assigned only if building it did not raise.
\<close>

definition init_pool :: "db_config \<Rightarrow> unit prog" where
  "init_pool cfg w =
     (if POOL w \<noteq> None then (Inr (), w)
      else
        (case (case env_DB_POOL_SIZE w of None \<Rightarrow> Inr 4 | Some r \<Rightarrow> r) of
           Inl e \<Rightarrow> (Inl e, w)
         | Inr n \<Rightarrow>
             (let p = \<lparr>pool_name = ''live_station_pool'', pool_size = n, pool_kwargs = cfg,
                       autocommit = False, charset = ''utf8mb4''\<rparr>
              in case pool_connect w p of
                   Some e \<Rightarrow> (Inl e, w)
                 | None \<Rightarrow> (Inr (), w\<lparr>POOL := Some p\<rparr>))))"

text \<open>
  The pool hands out a connection while fewer than \<open>pool_size\<close> are in use and raises its
  \<^verbatim>\<open>PoolError\<close> otherwise; closing a pooled connection gives it back.
\<close>

definition get_connection :: "pool \<Rightarrow> connection prog" where
  "get_connection p w =
     (if int (in_use w) < pool_size p
      then (Inr (Connection (in_use w)),
            log_db (GetConnection (Connection (in_use w))) (w\<lparr>in_use := Suc (in_use w)\<rparr>))
      else (Inl (LibraryError ''PoolError''), w))"

definition commit :: "connection \<Rightarrow> world \<Rightarrow> world" where
  "commit c w = log_db (Commit c) w"

definition rollback :: "connection \<Rightarrow> world \<Rightarrow> world" where
  "rollback c w = log_db (Rollback c) w"

definition close_connection :: "connection \<Rightarrow> world \<Rightarrow> world" where
  "close_connection c w = log_db (CloseConnection c) (w\<lparr>in_use := in_use w - 1\<rparr>)"

text \<open>
  \<^verbatim>\<open>get_conn\<close> is a generator wrapped by \<^verbatim>\<open>contextlib.contextmanager\<close>; \<open>body\<close> is the block
  of the \<^verbatim>\<open>with\<close> statement, run at the \<^verbatim>\<open>yield\<close>. When \<^verbatim>\<open>_POOL\<close> is \<^verbatim>\<open>None\<close> the generator
  returns before it yields, and entering the \<^verbatim>\<open>with\<close> statement raises \<^verbatim>\<open>RuntimeError\<close>
  (the block does not run). \<^verbatim>\<open>except DatabaseError\<close> names the package's own class.
\<close>

definition get_conn :: "(connection \<Rightarrow> 'a prog) \<Rightarrow> 'a prog" where
  "get_conn body w =
     (case POOL w of
        None \<Rightarrow> (Inl RuntimeError, w)
      | Some p \<Rightarrow>
          (case get_connection p w of
             (Inl e, w1) \<Rightarrow> (Inl e, w1)
           | (Inr connection, w1) \<Rightarrow>
               (case body connection w1 of
                  (Inr v, w2) \<Rightarrow> (Inr v, close_connection connection (commit connection w2))
                | (Inl e, w2) \<Rightarrow>
                    if e = DatabaseError
                    then (Inl e, close_connection connection (rollback connection w2))
                    else (Inl e, close_connection connection w2))))"

definition get_cursor :: "connection \<Rightarrow> (cursor \<Rightarrow> 'a prog) \<Rightarrow> 'a prog" where
  "get_cursor connection body w =
     (case body (Cursor connection) (log_db (OpenCursor connection) w) of
        (r, w1) \<Rightarrow> (r, log_db (CloseCursor connection) w1))"

text \<open>\<^verbatim>\<open>cursor.execute(...)\<close> followed by \<^verbatim>\<open>cursor.fetchall()\<close>.\<close>

definition execute_fetchall :: "cursor \<Rightarrow> string \<Rightarrow> string \<Rightarrow> AuditRow list prog" where
  "execute_fetchall cur fn pattern w =
     (case select_runAudits w fn pattern of
        Inl e \<Rightarrow> (Inl e, log_db (Execute fn pattern) w)
      | Inr rows \<Rightarrow> (Inr rows, log_db FetchAll (log_db (Execute fn pattern) w)))"

definition return_function_rows :: "string \<Rightarrow> string \<Rightarrow> AuditRow list prog" where
  "return_function_rows fn date =
     get_conn (\<lambda>connection.
       get_cursor connection (\<lambda>cur. execute_fetchall cur fn (date @ ''%'')))"

definition prior_day_calls :: "string \<Rightarrow> AuditRow list prog" where
  "prior_day_calls fn w =
     (case now_utc w of
        (current_utc_datetime, w1) \<Rightarrow>
          return_function_rows fn (strftime_Ymd (current_utc_datetime - 86400)) w1)"

subsection \<open>Secrets (\<^verbatim>\<open>secrets.py\<close>)\<close>

definition get_secret_payload :: "string \<Rightarrow> (string \<times> string) list prog" where
  "get_secret_payload secret_name w =
     (case (case secret_cache w of
              None \<Rightarrow> None
            | Some (k, v) \<Rightarrow> if k = secret_name then Some v else None) of
        Some v \<Rightarrow> (Inr v, w)
      | None \<Rightarrow>
          (case get_secret_value w secret_name of
             ResourceNotFoundException \<Rightarrow>
               (Inl (SecretError (''Secret '' @ secret_name @ '' not found'')), w)
           | OtherFailure \<Rightarrow> (Inl (SecretError ''Access denied to Secrets Manager''), w)
           | SecretString payload \<Rightarrow>
               (Inr payload, w\<lparr>secret_cache := Some (secret_name, payload)\<rparr>)))"

definition lookup :: "(string \<times> string) list \<Rightarrow> string \<Rightarrow> exn + string" where
  "lookup d k = (case map_of d k of None \<Rightarrow> Inl (KeyError k) | Some v \<Rightarrow> Inr v)"

definition get_db_config :: "db_config prog" where
  "get_db_config w =
     (case get_secret_payload DATABASE_SECRET w of
        (Inl e, w1) \<Rightarrow> (Inl e, w1)
      | (Inr payload, w1) \<Rightarrow>
          (case lookup payload ''host'' of Inl e \<Rightarrow> (Inl e, w1) | Inr h \<Rightarrow>
           case lookup payload ''user'' of Inl e \<Rightarrow> (Inl e, w1) | Inr u \<Rightarrow>
           case lookup payload ''password'' of Inl e \<Rightarrow> (Inl e, w1) | Inr p \<Rightarrow>
           case lookup payload ''database'' of Inl e \<Rightarrow> (Inl e, w1) | Inr d \<Rightarrow>
             (Inr \<lparr>host = h, user = u, password = p, database = d\<rparr>, w1)))"

subsection \<open>The orchestrator (\<^verbatim>\<open>main.handler\<close>)\<close>

record response =
  status_code :: int
  body :: string

text \<open>The body of the loop over \<^verbatim>\<open>FUNCTIONS_TO_CHECK\<close>, and the loop.\<close>

definition check_function :: "string \<Rightarrow> unit prog" where
  "check_function fn w =
     (case prior_day_calls fn w of
        (Inl e, w1) \<Rightarrow> (Inl e, w1)
      | (Inr query_result, w1) \<Rightarrow>
          threshold_checker (query_parser query_result fn) query_result fn w1)"

fun check_functions :: "string list \<Rightarrow> unit prog" where
  "check_functions [] w = (Inr (), w)"
| "check_functions (fn # fns) w =
     (case check_function fn w of
        (Inl e, w1) \<Rightarrow> (Inl e, w1)
      | (Inr _, w1) \<Rightarrow> check_functions fns w1)"

text \<open>
  The handler does not look at the event; of the context it reads \<^verbatim>\<open>aws_request_id\<close> for
  the logger. Its \<^verbatim>\<open>except Exception\<close> logs and raises the same exception again.
\<close>

definition handler :: "'ev \<Rightarrow> string \<Rightarrow> response prog" where
  "handler event aws_request_id w =
     (case get_db_config w of
        (Inl e, w1) \<Rightarrow> (Inl e, w1)
      | (Inr cfg, w1) \<Rightarrow>
          (case init_pool cfg w1 of
             (Inl e, w2) \<Rightarrow> (Inl e, w2)
           | (Inr _, w2) \<Rightarrow>
               (case check_functions FUNCTIONS_TO_CHECK w2 of
                  (Inl e, w3) \<Rightarrow> (Inl e, w3)
                | (Inr _, w3) \<Rightarrow>
                    (Inr \<lparr>status_code = 200, body = ''Health check completed successfully''\<rparr>,
                     w3))))"

subsection \<open>Schedule comparison (\<^verbatim>\<open>utils.py\<close>; not called by the handler)\<close>

definition starts_with :: "string \<Rightarrow> string \<Rightarrow> bool" where
  "starts_with p s = (take (length p) s = p)"

fun str_contains :: "string \<Rightarrow> string \<Rightarrow> bool" where
  \<comment> \<open>\<^verbatim>\<open>sub in s\<close>\<close>
  "str_contains sub [] = (sub = [])"
| "str_contains sub (x # xs) = (starts_with sub (x # xs) \<or> str_contains sub xs)"

fun split_char :: "char \<Rightarrow> string \<Rightarrow> string list" where
  \<comment> \<open>\<^verbatim>\<open>s.split(c)\<close> for a one-character separator\<close>
  "split_char c [] = [[]]"
| "split_char c (x # xs) =
     (if x = c then [] # split_char c xs
      else (case split_char c xs of p # ps \<Rightarrow> (x # p) # ps | [] \<Rightarrow> [[x]]))"

definition rstrip_char :: "char \<Rightarrow> string \<Rightarrow> string" where
  \<comment> \<open>\<^verbatim>\<open>s.rstrip(c)\<close>\<close>
  "rstrip_char c s = rev (dropWhile (\<lambda>x. x = c) (rev s))"

definition is_space :: "char \<Rightarrow> bool" where
  "is_space c = (let n = of_char c :: nat in n = 32 \<or> (9 \<le> n \<and> n \<le> 13) \<or> (28 \<le> n \<and> n \<le> 31))"

fun split_ws :: "string \<Rightarrow> string \<Rightarrow> string list" where
  \<comment> \<open>\<^verbatim>\<open>s.split()\<close>: the first argument is the word being read\<close>
  "split_ws cur [] = (if cur = [] then [] else [cur])"
| "split_ws cur (x # xs) =
     (if is_space x then (if cur = [] then split_ws [] xs else cur # split_ws [] xs)
      else split_ws (cur @ [x]) xs)"

definition get_event_bridge_schedule :: "(string \<times> string) list prog" where
  "get_event_bridge_schedule w = (get_schedule w SCHEDULE_NAME, w)"

definition get_schedule_expression :: "(string \<times> string) list \<Rightarrow> exn + string" where
  "get_schedule_expression event_bridge_response = lookup event_bridge_response ''ScheduleExpression''"

definition relative_start_time :: "string \<Rightarrow> int prog" where
  "relative_start_time fn w =
     (case prior_day_calls fn w of
        (Inl e, w1) \<Rightarrow> (Inl e, w1)
      | (Inr query_result, w1) \<Rightarrow>
          (case query_result of
             [] \<Rightarrow> (Inl IndexError, w1)
           | r0 # _ \<Rightarrow>
               (Inr (foldl (\<lambda>earliest_date row.
                              if function_start_time row < earliest_date
                              then function_start_time row else earliest_date)
                           (function_start_time r0) query_result),
                w1)))"

text \<open>
  The \<^verbatim>\<open>while\<close> loop of \<^verbatim>\<open>generate_exp_times\<close>: a day is 86400 seconds and the step is
  \<^verbatim>\<open>timedelta(minutes=3)\<close>, 180 seconds.
\<close>

function exp_times_loop :: "int \<Rightarrow> int \<Rightarrow> int list \<Rightarrow> int list" where
  "exp_times_loop start_time earliest_time expected_run_times =
     (if start_time < earliest_time + 86400
      then exp_times_loop (start_time + 180) earliest_time (expected_run_times @ [start_time])
      else expected_run_times)"
  by pat_completeness auto
termination
  by (relation "measure (\<lambda>(s, e, acc). nat (e + 86400 - s))") auto

declare exp_times_loop.simps [simp del]

definition generate_exp_times :: "string \<Rightarrow> int list prog" where
  "generate_exp_times fn w =
     (case relative_start_time fn w of
        (Inl e, w1) \<Rightarrow> (Inl e, w1)
      | (Inr earliest_time, w1) \<Rightarrow>
          (case get_event_bridge_schedule w1 of
             (Inl e, w2) \<Rightarrow> (Inl e, w2)
           | (Inr response, w2) \<Rightarrow>
               (case get_schedule_expression response of
                  Inl e \<Rightarrow> (Inl e, w2)
                | Inr rate_expression \<Rightarrow>
                    if \<not> str_contains ''rate'' rate_expression then (Inl NotImplementedError, w2)
                    else
                      (case split_char (CHR ''('') rate_expression of
                         p0 # p1 # _ \<Rightarrow>
                           (case split_ws [] (rstrip_char (CHR '')'') p1) of
                              [rate_value, rate] \<Rightarrow>
                                if rate \<noteq> ''minutes'' then (Inl NotImplementedError, w2)
                                else (Inr (exp_times_loop earliest_time earliest_time []), w2)
                            | _ \<Rightarrow> (Inl ValueError, w2))
                       | _ \<Rightarrow> (Inl IndexError, w2)))))"

subsection \<open>A concrete run\<close>

text \<open>
  The scenario of the specification: the check runs at 2025-10-27 05:48:46 UTC in a warm
  process (pool initialised, secret cached); the prior day holds one row for \<^verbatim>\<open>ENWL_power_scraper\<close>, with 5 records written,
  3 read and status \<^verbatim>\<open>FAIL\<close>, and no row for any other function. The schedule is set to
  \<^verbatim>\<open>rate(5 minutes)\<close>, and SNS accepts every publish call. Python prints the floats 1.0 and 0.8 as \<^verbatim>\<open>1.0\<close> and \<^verbatim>\<open>0.8\<close>.
\<close>

definition scenario_row :: AuditRow where
  "scenario_row =
     \<lparr>run_id = 17, function_name = ''ENWL_power_scraper'', function_start_time = 1761457726,
      records_written = 5, records_read = 3, status = ''FAIL''\<rparr>"

definition scenario_pool :: pool where
  "scenario_pool =
     \<lparr>pool_name = ''live_station_pool'', pool_size = 4,
      pool_kwargs = \<lparr>host = ''db.internal'', user = ''checker'', password = ''pw'',
                      database = ''audit''\<rparr>,
      autocommit = False, charset = ''utf8mb4''\<rparr>"

definition scenario_world :: world where
  "scenario_world =
     \<lparr>POOL = Some scenario_pool, in_use = 0, db_log = [], published = [], clock_reads = 0,
      secret_cache = Some (''db_creds'',
        [(''host'', ''db.internal''), (''user'', ''checker''),
         (''password'', ''pw''), (''database'', ''audit'')]),
      clock = (\<lambda>k. 1761544126),
      select_runAudits = (\<lambda>fn pattern.
        if fn = ''ENWL_power_scraper'' \<and> pattern = ''2025-10-26%''
        then Inr [scenario_row] else Inr []),
      pool_connect = (\<lambda>p. None),
      get_secret_value = (\<lambda>name.
        if name = ''db_creds''
        then SecretString [(''host'', ''db.internal''), (''user'', ''checker''),
                           (''password'', ''pw''), (''database'', ''audit'')]
        else ResourceNotFoundException),
      get_schedule = (\<lambda>name.
        if name = ''3_min_schedule'' then Inr [(''ScheduleExpression'', ''rate(5 minutes)'')]
        else Inl (LibraryError ''ResourceNotFoundException'')),
      sns_publish = (\<lambda>request. None),
      env_DB_POOL_SIZE = None,
      float_str = (\<lambda>r. if r = 1 then ''1.0'' else if r = 8 / 10 then ''0.8'' else ''0.0'')\<rparr>"

section \<open>Properties of the classification\<close>

text \<open>Facts that let the simplifier compute \<open>char_of\<close> on a numeral.\<close>

lemmas char_eval = char_of_def bit_Suc_0_iff

lemma upper_char_eq_iff:
  assumes "upper_char t = t"
  shows "(upper_char a = t) = (lower_char a = lower_char t)"
  using assms unfolding upper_char_def lower_char_def Let_def
  by (auto split: if_splits)

lemma upper_eq_iff_ci_equal:
  "list_all (\<lambda>t. upper_char t = t) T \<Longrightarrow> (upper s = T) = ci_equal s T"
proof (induction s arbitrary: T)
  case Nil
  then show ?case by (auto simp: upper_def ci_equal_def)
next
  case (Cons a s)
  show ?case
  proof (cases T)
    case Nil
    then show ?thesis by (simp add: upper_def ci_equal_def)
  next
    case (Cons t T')
    with Cons.prems have t: "upper_char t = t" and T': "list_all (\<lambda>t. upper_char t = t) T'"
      by simp_all
    from Cons.IH [OF T'] have "(map upper_char s = T') = (map lower_char s = map lower_char T')"
      by (simp add: upper_def ci_equal_def)
    with upper_char_eq_iff [OF t, of a] Cons show ?thesis
      by (simp add: upper_def ci_equal_def)
  qed
qed

lemma upper_success_with_data:
  "(upper s = ''SUCCESS_WITH_DATA'') = ci_equal s ''SUCCESS_WITH_DATA''"
  by (rule upper_eq_iff_ci_equal) (simp add: upper_char_def)

lemma upper_success_no_data:
  "(upper s = ''SUCCESS_NO_DATA'') = ci_equal s ''SUCCESS_NO_DATA''"
  by (rule upper_eq_iff_ci_equal) (simp add: upper_char_def)

lemma query_parser_step_entries:
  "query_parser_step acc r = acc @ entries_of r"
  by (simp add: query_parser_step_def entries_of_def classify_row_def
      upper_success_with_data upper_success_no_data)

lemma foldl_query_parser_step:
  "foldl query_parser_step acc rows = acc @ concat (map entries_of rows)"
  by (induction rows arbitrary: acc) (simp_all add: query_parser_step_entries)

lemma query_parser_concat:
  "query_parser rows fn = concat (map entries_of rows)"
  by (simp add: query_parser_def foldl_query_parser_step)

lemma length_entries_of: "length (entries_of r) = (if flagged r then 1 else 0)"
  by (cases "classify_row r") (simp_all add: entries_of_def flagged_def)

lemma length_query_parser:
  "length (query_parser rows fn) = length (filter flagged rows)"
  by (induction rows) (simp_all add: query_parser_concat length_entries_of)

text \<open>
  C1. For every list of audit rows, \<open>query_parser\<close> returns, in the order of the rows, one
  entry for each row that fails: a row whose \<open>records_written\<close> differs from its
  \<open>records_read\<close> gives the mismatch reason, whatever its status; otherwise a row whose
  status is, up to case, neither \<open>SUCCESS_WITH_DATA\<close> nor \<open>SUCCESS_NO_DATA\<close> gives the
  status reason; any other row gives no entry.
\<close>

theorem query_parser_classifies:
  "query_parser rows fn =
     concat (map (\<lambda>r.
       case classify_row r of
         Mismatch \<Rightarrow> [(run_id r, mismatch_reason r)]
       | Non_success_status \<Rightarrow> [(run_id r, status_reason r)]
       | Passes \<Rightarrow> []) rows)"
  using query_parser_concat [of rows fn] by (simp add: entries_of_def [abs_def])

text \<open>
  C10. \<open>query_parser\<close> treats each row on its own and ignores the function name: it
  distributes over the concatenation of row lists, it gives the same entries for any two
  function names, and it returns at most one entry per row.
\<close>

theorem query_parser_rowwise:
  "query_parser (xs @ ys) f = query_parser xs f @ query_parser ys f
   \<and> query_parser xs f = query_parser xs g
   \<and> length (query_parser xs f) \<le> length xs"
  by (simp add: query_parser_concat length_query_parser [of xs g, unfolded query_parser_concat])

section \<open>Error rate and threshold\<close>

text \<open>
  C3. For a non-empty query result, the error rate that \<open>threshold_checker\<close> computes from
  the output of \<open>query_parser\<close> is the number of flagged rows divided by the number of rows,
  and it lies between 0 and 1. When every row has equal record counts and a success status
  (up to case), \<open>query_parser\<close> returns no entry and the rate is 0. The rate is the exact
  quotient; Python rounds it to the nearest float, which stays within the same bounds.
\<close>

theorem error_rate_fraction:
  assumes "query_result \<noteq> []"
  shows "\<exists>rate. error_rate (query_parser query_result fn) query_result = Inr rate
     \<and> rate = of_nat (length (filter flagged query_result)) / of_nat (length query_result)
     \<and> 0 \<le> rate \<and> rate \<le> 1
     \<and> (list_all (\<lambda>r. records_written r = records_read r
            \<and> (ci_equal (status r) ''SUCCESS_WITH_DATA'' \<or> ci_equal (status r) ''SUCCESS_NO_DATA''))
          query_result \<longrightarrow> query_parser query_result fn = [] \<and> rate = 0)"
proof -
  let ?n = "length (filter flagged query_result)"
  let ?rate = "of_nat ?n / of_nat (length query_result) :: rat"
  have pos: "0 < length query_result" using assms by simp
  have le: "?n \<le> length query_result" by simp
  have 1: "error_rate (query_parser query_result fn) query_result = Inr ?rate"
    using assms by (simp add: error_rate_def length_query_parser)
  have 2: "0 \<le> ?rate" by simp
  have 3: "?rate \<le> 1" using pos le by (simp add: divide_le_eq_1)
  have 4: "query_parser query_result fn = [] \<and> ?rate = 0"
    if "list_all (\<lambda>r. records_written r = records_read r
            \<and> (ci_equal (status r) ''SUCCESS_WITH_DATA'' \<or> ci_equal (status r) ''SUCCESS_NO_DATA''))
          query_result"
  proof -
    from that have "filter flagged query_result = []"
      by (auto simp: filter_empty_conv list_all_iff flagged_def classify_row_def)
    then show ?thesis
      using length_query_parser [of query_result fn] by simp
  qed
  from 1 2 3 4 show ?thesis by blast
qed

theorem error_rate_fraction_witness:
  "error_rate
     (query_parser [\<lparr>run_id = 1, function_name = ''f'', function_start_time = 0,
        records_written = 5, records_read = 5, status = ''success_with_data''\<rparr>] ''f'')
     [\<lparr>run_id = 1, function_name = ''f'', function_start_time = 0,
        records_written = 5, records_read = 5, status = ''success_with_data''\<rparr>] = Inr 0
   \<and> query_parser [\<lparr>run_id = 1, function_name = ''f'', function_start_time = 0,
        records_written = 5, records_read = 5, status = ''success_with_data''\<rparr>] ''f'' = []"
proof -
  let ?r = "\<lparr>run_id = 1, function_name = ''f'', function_start_time = 0,
        records_written = 5, records_read = 5, status = ''success_with_data''\<rparr>"
  have h1: "[?r] \<noteq> []" by simp
  have h2: "list_all (\<lambda>r. records_written r = records_read r
            \<and> (ci_equal (status r) ''SUCCESS_WITH_DATA'' \<or> ci_equal (status r) ''SUCCESS_NO_DATA''))
          [?r]"
    by (simp add: ci_equal_def lower_char_def char_eval)
  from error_rate_fraction [OF h1, of "''f''"] h2 show ?thesis by auto
qed

text \<open>
  C4. For an empty row set the division of line 98 has a zero divisor:
  \<open>threshold_checker\<close> raises \<open>ZeroDivisionError\<close>, leaves the world as it was and so
  publishes nothing; it neither takes the rate to be 0 nor skips the function silently.
\<close>

theorem threshold_checker_empty:
  "threshold_checker errored_rows [] fn w = (Inl ZeroDivisionError, w)
   \<and> published (snd (threshold_checker errored_rows [] fn w)) = published w"
  by (simp add: threshold_checker_def error_rate_def)

section \<open>Running one check\<close>

text \<open>
  What the steps of one check do to the world: the threshold check on a non-empty result,
  the query on a pool with a free connection, and the two together. The last lemmas run
  them on the scenario.
\<close>

lemma scenario_today: "strftime_Ymd 1761544126 = ''2025-10-27''"
  by code_simp

lemma scenario_yesterday: "strftime_Ymd 1761457726 = ''2025-10-26''"
  by code_simp

lemma threshold_checker_result:
  assumes "query_result \<noteq> []"
  shows "threshold_checker errored_rows query_result fn w =
     (if (8 / 10 :: rat) \<le> of_nat (length errored_rows) / of_nat (length query_result)
      then (case sns_publish w
                  (publish_request EMAIL_TOPIC_ARN
                     (of_nat (length errored_rows) / of_nat (length query_result))
                     (strftime_Ymd (clock w (Suc (clock_reads w)))) fn w) of
              Some e \<Rightarrow> (Inl e, w\<lparr>clock_reads := Suc (Suc (clock_reads w))\<rparr>)
            | None \<Rightarrow>
                (Inr (),
                 w\<lparr>clock_reads := Suc (Suc (clock_reads w)),
                   published := published w @
                     [publish_request EMAIL_TOPIC_ARN
                        (of_nat (length errored_rows) / of_nat (length query_result))
                        (strftime_Ymd (clock w (Suc (clock_reads w)))) fn w]\<rparr>))
      else (Inr (), w\<lparr>clock_reads := Suc (clock_reads w)\<rparr>))"
  using assms
  by (simp add: threshold_checker_def error_rate_def get_current_UTC_date_def now_utc_def
      publish_to_topic_def publish_request_def ACCEPTABLE_ERROR_THRESHOLD_def
      split: option.splits)

lemma threshold_checker_Nil:
  "threshold_checker errored_rows [] fn w = (Inl ZeroDivisionError, w)"
  by (simp add: threshold_checker_def error_rate_def)

lemma return_function_rows_ok:
  assumes "POOL w = Some p" and "int (in_use w) < pool_size p"
    and "select_runAudits w fn (date @ ''%'') = Inr rows"
  shows "return_function_rows fn date w =
     (Inr rows,
      w\<lparr>db_log := db_log w @
          [GetConnection (Connection (in_use w)), OpenCursor (Connection (in_use w)),
           Execute fn (date @ ''%''), FetchAll, CloseCursor (Connection (in_use w)),
           Commit (Connection (in_use w)), CloseConnection (Connection (in_use w))]\<rparr>)"
  using assms
  by (simp add: return_function_rows_def get_conn_def get_connection_def get_cursor_def
      execute_fetchall_def close_connection_def commit_def log_db_def)

lemma return_function_rows_error:
  assumes "POOL w = Some p" and "int (in_use w) < pool_size p"
    and "select_runAudits w fn (date @ ''%'') = Inl e"
  shows "return_function_rows fn date w =
     (Inl e,
      w\<lparr>db_log := db_log w @
          [GetConnection (Connection (in_use w)), OpenCursor (Connection (in_use w)),
           Execute fn (date @ ''%''), CloseCursor (Connection (in_use w))] @
          (if e = DatabaseError
           then [Rollback (Connection (in_use w)), CloseConnection (Connection (in_use w))]
           else [CloseConnection (Connection (in_use w))])\<rparr>)"
  using assms
  by (cases "e = DatabaseError")
    (simp_all add: return_function_rows_def get_conn_def get_connection_def get_cursor_def
      execute_fetchall_def close_connection_def rollback_def log_db_def)

lemma prior_day_calls_eq:
  "prior_day_calls fn w =
     return_function_rows fn (strftime_Ymd (clock w (clock_reads w) - 86400))
       (w\<lparr>clock_reads := Suc (clock_reads w)\<rparr>)"
  by (simp add: prior_day_calls_def now_utc_def)

lemma prior_day_calls_ok:
  assumes "POOL w = Some p" and "int (in_use w) < pool_size p"
    and "select_runAudits w fn (strftime_Ymd (clock w (clock_reads w) - 86400) @ ''%'') = Inr rows"
  shows "prior_day_calls fn w =
     (Inr rows,
      w\<lparr>clock_reads := Suc (clock_reads w),
        db_log := db_log w @
          [GetConnection (Connection (in_use w)), OpenCursor (Connection (in_use w)),
           Execute fn (strftime_Ymd (clock w (clock_reads w) - 86400) @ ''%''), FetchAll,
           CloseCursor (Connection (in_use w)),
           Commit (Connection (in_use w)), CloseConnection (Connection (in_use w))]\<rparr>)"
  using return_function_rows_ok [of "w\<lparr>clock_reads := Suc (clock_reads w)\<rparr>" p fn
      "strftime_Ymd (clock w (clock_reads w) - 86400)" rows] assms
  by (simp add: prior_day_calls_eq)

lemma prior_day_calls_error:
  assumes "POOL w = Some p" and "int (in_use w) < pool_size p"
    and "select_runAudits w fn (strftime_Ymd (clock w (clock_reads w) - 86400) @ ''%'') = Inl e"
  shows "prior_day_calls fn w =
     (Inl e,
      w\<lparr>clock_reads := Suc (clock_reads w),
        db_log := db_log w @
          [GetConnection (Connection (in_use w)), OpenCursor (Connection (in_use w)),
           Execute fn (strftime_Ymd (clock w (clock_reads w) - 86400) @ ''%''),
           CloseCursor (Connection (in_use w))] @
          (if e = DatabaseError
           then [Rollback (Connection (in_use w)), CloseConnection (Connection (in_use w))]
           else [CloseConnection (Connection (in_use w))])\<rparr>)"
  using return_function_rows_error [of "w\<lparr>clock_reads := Suc (clock_reads w)\<rparr>" p fn
      "strftime_Ymd (clock w (clock_reads w) - 86400)" e] assms
  by (simp add: prior_day_calls_eq)

lemma check_function_ok:
  assumes "POOL w = Some p" and "int (in_use w) < pool_size p"
    and "select_runAudits w fn (strftime_Ymd (clock w (clock_reads w) - 86400) @ ''%'') = Inr rows"
  shows "check_function fn w =
     threshold_checker (query_parser rows fn) rows fn
       (w\<lparr>clock_reads := Suc (clock_reads w),
          db_log := db_log w @
          [GetConnection (Connection (in_use w)), OpenCursor (Connection (in_use w)),
           Execute fn (strftime_Ymd (clock w (clock_reads w) - 86400) @ ''%''), FetchAll,
           CloseCursor (Connection (in_use w)),
           Commit (Connection (in_use w)), CloseConnection (Connection (in_use w))]\<rparr>)"
  by (simp add: check_function_def prior_day_calls_ok [OF assms])

lemma scenario_query_parser:
  "query_parser [scenario_row] fn = [(17, ''Records read != records written: 5 != 3'')]"
  by (simp add: query_parser_concat entries_of_def classify_row_def scenario_row_def
      mismatch_reason_def str_int_def digits.simps char_eval)

lemma scenario_check_ENWL:
  "check_function ''ENWL_power_scraper'' scenario_world =
     (Inr (),
      scenario_world\<lparr>clock_reads := 3,
        db_log := [GetConnection (Connection 0), OpenCursor (Connection 0),
           Execute ''ENWL_power_scraper'' ''2025-10-26%'', FetchAll,
           CloseCursor (Connection 0), Commit (Connection 0), CloseConnection (Connection 0)],
        published := [\<lparr>TopicArn = EMAIL_TOPIC_ARN,
           Message = ''Error rate on for ENWL_power_scraper 2025-10-27 of 1.0 exceeded acceptable threshold of 0.8'',
           Subject = ''Health checker warning 2025-10-27''\<rparr>]\<rparr>)"
proof -
  have p: "POOL scenario_world = Some scenario_pool"
    by (simp add: scenario_world_def)
  have u: "int (in_use scenario_world) < pool_size scenario_pool"
    by (simp add: scenario_world_def scenario_pool_def)
  have s: "select_runAudits scenario_world ''ENWL_power_scraper''
      (strftime_Ymd (clock scenario_world (clock_reads scenario_world) - 86400) @ ''%'')
      = Inr [scenario_row]"
    by (simp add: scenario_world_def scenario_yesterday)
  show ?thesis
    unfolding check_function_ok [OF p u s] scenario_query_parser
    by (simp add: threshold_checker_result publish_request_def ACCEPTABLE_ERROR_THRESHOLD_def
        scenario_world_def scenario_today scenario_yesterday numeral_3_eq_3)
qed

text \<open>
  C2 (amended). For a non-empty row set: if the error rate is at least 0.8,
  \<open>threshold_checker\<close> makes exactly one publish call, for a message and subject that carry
  the function's name and the current UTC date, read from the clock when the notification
  is built (the date of the check, not the date of the prior-day window that was queried);
  if SNS accepts the call, exactly that one notification is published and the check
  returns, and if the call raises, nothing is published and the exception propagates. If
  the rate is below 0.8 the check returns and nothing is published.
\<close>

theorem threshold_checker_notifies:
  assumes "query_result \<noteq> []"
  shows "let rate = of_nat (length errored_rows) / of_nat (length query_result) :: rat;
             date = strftime_Ymd (clock w (Suc (clock_reads w)));
             request =
               \<lparr>TopicArn = EMAIL_TOPIC_ARN,
                 Message = ''Error rate on for '' @ fn @ '' '' @ date @ '' of '' @
                           float_str w rate @ '' exceeded acceptable threshold of '' @
                           float_str w (8 / 10),
                 Subject = ''Health checker warning '' @ date\<rparr>;
             result = threshold_checker errored_rows query_result fn w
         in if 8 / 10 \<le> rate
            then (case sns_publish w request of
                    None \<Rightarrow>
                      fst result = Inr () \<and> published (snd result) = published w @ [request]
                  | Some e \<Rightarrow>
                      fst result = Inl e \<and> published (snd result) = published w)
            else fst result = Inr () \<and> published (snd result) = published w"
  by (simp add: threshold_checker_result [OF assms] Let_def publish_request_def
      ACCEPTABLE_ERROR_THRESHOLD_def split: option.splits)

theorem threshold_checker_notifies_witness:
  "published (snd (threshold_checker [(17, ''mismatch'')] [scenario_row] ''ENWL_power_scraper''
      scenario_world)) =
     [\<lparr>TopicArn = EMAIL_TOPIC_ARN,
       Message = ''Error rate on for ENWL_power_scraper 2025-10-27 of 1.0 exceeded acceptable threshold of 0.8'',
       Subject = ''Health checker warning 2025-10-27''\<rparr>]
   \<and> published (snd (threshold_checker [(17, ''mismatch'')] [scenario_row, scenario_row]
      ''ENWL_power_scraper'' scenario_world)) = []
   \<and> fst (threshold_checker [(17, ''mismatch'')] [scenario_row] ''ENWL_power_scraper''
      (scenario_world\<lparr>sns_publish := \<lambda>request. Some (LibraryError ''ClientError'')\<rparr>)) =
     Inl (LibraryError ''ClientError'')
   \<and> published (snd (threshold_checker [(17, ''mismatch'')] [scenario_row]
      ''ENWL_power_scraper''
      (scenario_world\<lparr>sns_publish := \<lambda>request. Some (LibraryError ''ClientError'')\<rparr>))) = []"
proof -
  have 1: "[scenario_row] \<noteq> []" and 2: "[scenario_row, scenario_row] \<noteq> []"
    by simp_all
  show ?thesis
    using threshold_checker_notifies [OF 1, of "[(17, ''mismatch'')]" scenario_world
        "''ENWL_power_scraper''"]
      threshold_checker_notifies [OF 2, of "[(17, ''mismatch'')]" scenario_world
        "''ENWL_power_scraper''"]
      threshold_checker_notifies [OF 1, of "[(17, ''mismatch'')]"
        "scenario_world\<lparr>sns_publish := \<lambda>request. Some (LibraryError ''ClientError'')\<rparr>"
        "''ENWL_power_scraper''"]
    by (simp add: Let_def scenario_world_def scenario_today)
qed

text \<open>
  C2 as stated fails. On the date: in the scenario the window queried is 2025-10-26, and the
  notification carries 2025-10-27. On the count: when SNS refuses the call, the rate is 1.0
  and no notification is published.
\<close>

theorem notification_date_counterexample:
  "published (snd (check_function ''ENWL_power_scraper'' scenario_world)) =
     [\<lparr>TopicArn = EMAIL_TOPIC_ARN,
       Message = ''Error rate on for ENWL_power_scraper 2025-10-27 of 1.0 exceeded acceptable threshold of 0.8'',
       Subject = ''Health checker warning 2025-10-27''\<rparr>]
   \<and> db_log (snd (check_function ''ENWL_power_scraper'' scenario_world)) =
     [GetConnection (Connection 0), OpenCursor (Connection 0),
      Execute ''ENWL_power_scraper'' ''2025-10-26%'', FetchAll,
      CloseCursor (Connection 0), Commit (Connection 0), CloseConnection (Connection 0)]
   \<and> strftime_Ymd (clock scenario_world 0 - 86400) = ''2025-10-26''
   \<and> fst (threshold_checker [(17, ''mismatch'')] [scenario_row] ''ENWL_power_scraper''
      (scenario_world\<lparr>sns_publish := \<lambda>request. Some (LibraryError ''ClientError'')\<rparr>)) =
     Inl (LibraryError ''ClientError'')
   \<and> published (snd (threshold_checker [(17, ''mismatch'')] [scenario_row]
      ''ENWL_power_scraper''
      (scenario_world\<lparr>sns_publish := \<lambda>request. Some (LibraryError ''ClientError'')\<rparr>))) = []"
  unfolding scenario_check_ENWL
  by (simp add: threshold_checker_result scenario_world_def scenario_yesterday)

section \<open>The connection scope and the pool\<close>



text \<open>
  C6. With the pool not initialised, \<open>get_conn\<close> performs no database operation, leaves the
  world as it was and never runs the block. Its guard \<^verbatim>\<open>if _POOL is None: return\<close> leaves the
  generator before the \<^verbatim>\<open>yield\<close>, so entering the \<^verbatim>\<open>with\<close> statement raises \<open>RuntimeError\<close>:
  the scope neither completes silently nor raises the \<open>DatabaseError\<close> its docstring
  announces, and \<open>return_function_rows\<close> raises the same \<open>RuntimeError\<close>.
\<close>

theorem get_conn_uninitialised:
  assumes "POOL w = None"
  shows "get_conn block w = (Inl RuntimeError, w)
    \<and> return_function_rows fn date w = (Inl RuntimeError, w)"
  using assms by (simp add: get_conn_def return_function_rows_def)

theorem get_conn_uninitialised_witness:
  "fst (return_function_rows ''ENWL_power_scraper'' ''2025-10-26'' (scenario_world\<lparr>POOL := None\<rparr>))
     = Inl RuntimeError
   \<and> db_log (snd (return_function_rows ''ENWL_power_scraper'' ''2025-10-26''
       (scenario_world\<lparr>POOL := None\<rparr>))) = []"
proof -
  have p: "POOL (scenario_world\<lparr>POOL := None\<rparr>) = None"
    by simp
  have l: "db_log (scenario_world\<lparr>POOL := None\<rparr>) = []"
    by (simp add: scenario_world_def)
  from get_conn_uninitialised [OF p, of undefined "''ENWL_power_scraper''" "''2025-10-26''"]
  have "return_function_rows ''ENWL_power_scraper'' ''2025-10-26'' (scenario_world\<lparr>POOL := None\<rparr>)
      = (Inl RuntimeError, scenario_world\<lparr>POOL := None\<rparr>)"
    by (rule conjunct2)
  with l show ?thesis by simp
qed

text \<open>
  C8. \<open>init_pool\<close> is idempotent: when the pool is initialised, a call with any configuration
  returns without changing anything, and two calls in sequence do what the first call alone
  does (also when the first call raises, since the second is then not reached).
\<close>

theorem init_pool_idempotent:
  "(POOL w \<noteq> None \<longrightarrow> init_pool cfg w = (Inr (), w))
   \<and> seq (init_pool cfg1) (init_pool cfg2) w = init_pool cfg1 w"
  by (auto simp: init_pool_def seq_def Let_def split: option.splits sum.splits)

theorem init_pool_idempotent_witness:
  "init_pool \<lparr>host = ''elsewhere'', user = ''other'', password = ''x'', database = ''y''\<rparr>
     scenario_world = (Inr (), scenario_world)
   \<and> POOL (snd (init_pool \<lparr>host = ''elsewhere'', user = ''other'', password = ''x'',
        database = ''y''\<rparr> scenario_world)) = Some scenario_pool"
proof -
  have p: "POOL scenario_world \<noteq> None"
    by (simp add: scenario_world_def)
  from init_pool_idempotent [of scenario_world
      "\<lparr>host = ''elsewhere'', user = ''other'', password = ''x'', database = ''y''\<rparr>"] p
  have "init_pool \<lparr>host = ''elsewhere'', user = ''other'', password = ''x'', database = ''y''\<rparr>
     scenario_world = (Inr (), scenario_world)"
    by blast
  then show ?thesis by (simp add: scenario_world_def)
qed

section \<open>The orchestrator\<close>

lemma check_function_eval:
  assumes "POOL w \<noteq> None" and "int (in_use w) < pool_size (the (POOL w))"
    and "\<not> isl (select_runAudits w fn (strftime_Ymd (clock w (clock_reads w) - 86400) @ ''%''))"
  shows "check_function fn w =
     threshold_checker
       (query_parser
          (projr (select_runAudits w fn (strftime_Ymd (clock w (clock_reads w) - 86400) @ ''%'')))
          fn)
       (projr (select_runAudits w fn (strftime_Ymd (clock w (clock_reads w) - 86400) @ ''%'')))
       fn
       (w\<lparr>clock_reads := Suc (clock_reads w),
          db_log := db_log w @
          [GetConnection (Connection (in_use w)), OpenCursor (Connection (in_use w)),
           Execute fn (strftime_Ymd (clock w (clock_reads w) - 86400) @ ''%''), FetchAll,
           CloseCursor (Connection (in_use w)),
           Commit (Connection (in_use w)), CloseConnection (Connection (in_use w))]\<rparr>)"
proof -
  from assms(1) obtain p where p: "POOL w = Some p" by auto
  from assms(3) obtain rows where r:
    "select_runAudits w fn (strftime_Ymd (clock w (clock_reads w) - 86400) @ ''%'') = Inr rows"
    by (cases "select_runAudits w fn (strftime_Ymd (clock w (clock_reads w) - 86400) @ ''%'')")
      auto
  from assms(2) p have u: "int (in_use w) < pool_size p" by simp
  show ?thesis
    by (simp add: check_function_ok [OF p u r] r)
qed

lemma scenario_get_db_config:
  "get_db_config (scenario_world\<lparr>select_runAudits := sel\<rparr>) =
     (Inr \<lparr>host = ''db.internal'', user = ''checker'', password = ''pw'', database = ''audit''\<rparr>,
      scenario_world\<lparr>select_runAudits := sel\<rparr>)"
  by (simp add: get_db_config_def get_secret_payload_def lookup_def scenario_world_def
      DATABASE_SECRET_def)

lemma scenario_init_pool:
  "init_pool cfg (scenario_world\<lparr>select_runAudits := sel\<rparr>) =
     (Inr (), scenario_world\<lparr>select_runAudits := sel\<rparr>)"
  by (simp add: init_pool_def scenario_world_def)

lemma scenario_first_then_second:
  "fst (check_function ''ENWL_power_scraper'' scenario_world) = Inr ()"
  "fst (check_function ''live_station_scraper''
     (snd (check_function ''ENWL_power_scraper'' scenario_world))) = Inl ZeroDivisionError"
  unfolding scenario_check_ENWL
  by (simp_all add: check_function_eval threshold_checker_Nil scenario_world_def
      scenario_pool_def scenario_yesterday)

lemma scenario_second_fetch:
  "fst (prior_day_calls ''live_station_scraper''
     (snd (check_function ''ENWL_power_scraper'' scenario_world))) = Inr []"
proof -
  let ?W2 = "snd (check_function ''ENWL_power_scraper'' scenario_world)"
  have p: "POOL ?W2 = Some scenario_pool"
    unfolding scenario_check_ENWL by (simp add: scenario_world_def)
  have u: "int (in_use ?W2) < pool_size scenario_pool"
    unfolding scenario_check_ENWL by (simp add: scenario_world_def scenario_pool_def)
  have s: "select_runAudits ?W2 ''live_station_scraper''
      (strftime_Ymd (clock ?W2 (clock_reads ?W2) - 86400) @ ''%'') = Inr []"
    unfolding scenario_check_ENWL by (simp add: scenario_world_def)
  show ?thesis
    by (simp add: prior_day_calls_ok [OF p u s])
qed

lemma scenario_all_rows:
  "fst (check_functions FUNCTIONS_TO_CHECK
     (scenario_world\<lparr>select_runAudits := \<lambda>fn pattern. Inr [scenario_row]\<rparr>)) = Inr ()"
  by (simp add: FUNCTIONS_TO_CHECK_def check_function_eval threshold_checker_result
      scenario_query_parser scenario_world_def scenario_pool_def scenario_yesterday
      scenario_today)

lemma check_functions_fail:
  "check_functions pre w = (Inr (), w3) \<Longrightarrow> check_function fn w3 = (Inl e, w4) \<Longrightarrow>
     check_functions (pre @ fn # post) w = (Inl e, w4)"
  by (induction pre arbitrary: w) (auto split: prod.splits sum.splits)

text \<open>
  C7. After the secret and the pool are set up, the handler checks the configured function
  names in their order, \<^verbatim>\<open>ENWL_power_scraper\<close> then \<^verbatim>\<open>live_station_scraper\<close>. The check of a
  function fetches its prior-day rows, classifies them with \<open>query_parser\<close> and runs
  \<open>threshold_checker\<close> on the entries and the rows. If, for some function reached by the loop,
  the fetch raises, or the fetch returns and the threshold check raises, then the handler
  raises that same exception in the world the raising step left behind, so no later function
  is evaluated and no later step of that function either. In particular a SELECT that fails
  on an initialised pool with a free connection makes the handler raise the database
  driver's exception, the last database events being those of that one query. If all checks
  complete, the handler returns the fixed payload with status code 200.
\<close>

theorem handler_fails_fast:
  assumes "get_db_config w = (Inr cfg, w1)" and "init_pool cfg w1 = (Inr (), w2)"
  shows "(\<forall>pre fn post e w3 w4.
            FUNCTIONS_TO_CHECK = pre @ fn # post \<and> check_functions pre w2 = (Inr (), w3)
              \<and> prior_day_calls fn w3 = (Inl e, w4)
            \<longrightarrow> handler event request_id w = (Inl e, w4))
       \<and> (\<forall>pre fn post e rows w3 w4 w5.
            FUNCTIONS_TO_CHECK = pre @ fn # post \<and> check_functions pre w2 = (Inr (), w3)
              \<and> prior_day_calls fn w3 = (Inr rows, w4)
              \<and> threshold_checker (query_parser rows fn) rows fn w4 = (Inl e, w5)
            \<longrightarrow> handler event request_id w = (Inl e, w5))
       \<and> (\<forall>pre fn post e p w3.
            FUNCTIONS_TO_CHECK = pre @ fn # post \<and> check_functions pre w2 = (Inr (), w3)
              \<and> POOL w3 = Some p \<and> int (in_use w3) < pool_size p
              \<and> select_runAudits w3 fn
                  (strftime_Ymd (clock w3 (clock_reads w3) - 86400) @ ''%'') = Inl e
            \<longrightarrow> fst (handler event request_id w) = Inl e
                \<and> published (snd (handler event request_id w)) = published w3
                \<and> db_log (snd (handler event request_id w)) =
                    db_log w3 @
                    [GetConnection (Connection (in_use w3)), OpenCursor (Connection (in_use w3)),
                     Execute fn (strftime_Ymd (clock w3 (clock_reads w3) - 86400) @ ''%''),
                     CloseCursor (Connection (in_use w3))] @
                    (if e = DatabaseError
                     then [Rollback (Connection (in_use w3)),
                           CloseConnection (Connection (in_use w3))]
                     else [CloseConnection (Connection (in_use w3))]))
       \<and> (\<forall>w3. check_functions FUNCTIONS_TO_CHECK w2 = (Inr (), w3)
            \<longrightarrow> handler event request_id w =
                (Inr \<lparr>status_code = 200, body = ''Health check completed successfully''\<rparr>, w3))
       \<and> check_functions FUNCTIONS_TO_CHECK =
           seq (check_function ''ENWL_power_scraper'') (check_function ''live_station_scraper'')
       \<and> (\<forall>fn w3. check_function fn w3 =
            (case prior_day_calls fn w3 of
               (Inl e, w4) \<Rightarrow> (Inl e, w4)
             | (Inr rows, w4) \<Rightarrow> threshold_checker (query_parser rows fn) rows fn w4))"
proof -
  have fail: "handler event request_id w = (Inl e, w4)"
    if "FUNCTIONS_TO_CHECK = pre @ fn # post" and "check_functions pre w2 = (Inr (), w3)"
      and "check_function fn w3 = (Inl e, w4)" for pre fn post e w3 w4
  proof -
    from that have "check_functions FUNCTIONS_TO_CHECK w2 = (Inl e, w4)"
      using check_functions_fail [of pre w2 w3 fn e w4 post] by simp
    with assms show ?thesis
      by (simp add: handler_def)
  qed
  have a: "\<forall>pre fn post e w3 w4.
            FUNCTIONS_TO_CHECK = pre @ fn # post \<and> check_functions pre w2 = (Inr (), w3)
              \<and> prior_day_calls fn w3 = (Inl e, w4)
            \<longrightarrow> handler event request_id w = (Inl e, w4)"
  proof (intro allI impI)
    fix pre fn post e w3 w4
    assume h: "FUNCTIONS_TO_CHECK = pre @ fn # post \<and> check_functions pre w2 = (Inr (), w3)
              \<and> prior_day_calls fn w3 = (Inl e, w4)"
    then have "check_function fn w3 = (Inl e, w4)"
      by (simp add: check_function_def)
    with h show "handler event request_id w = (Inl e, w4)"
      using fail [of pre fn post w3 e w4] by simp
  qed
  have b: "\<forall>pre fn post e rows w3 w4 w5.
            FUNCTIONS_TO_CHECK = pre @ fn # post \<and> check_functions pre w2 = (Inr (), w3)
              \<and> prior_day_calls fn w3 = (Inr rows, w4)
              \<and> threshold_checker (query_parser rows fn) rows fn w4 = (Inl e, w5)
            \<longrightarrow> handler event request_id w = (Inl e, w5)"
  proof (intro allI impI)
    fix pre fn post e rows w3 w4 w5
    assume h: "FUNCTIONS_TO_CHECK = pre @ fn # post \<and> check_functions pre w2 = (Inr (), w3)
              \<and> prior_day_calls fn w3 = (Inr rows, w4)
              \<and> threshold_checker (query_parser rows fn) rows fn w4 = (Inl e, w5)"
    then have "check_function fn w3 = (Inl e, w5)"
      by (simp add: check_function_def)
    with h show "handler event request_id w = (Inl e, w5)"
      using fail [of pre fn post w3 e w5] by simp
  qed
  have c: "\<forall>pre fn post e p w3.
            FUNCTIONS_TO_CHECK = pre @ fn # post \<and> check_functions pre w2 = (Inr (), w3)
              \<and> POOL w3 = Some p \<and> int (in_use w3) < pool_size p
              \<and> select_runAudits w3 fn
                  (strftime_Ymd (clock w3 (clock_reads w3) - 86400) @ ''%'') = Inl e
            \<longrightarrow> fst (handler event request_id w) = Inl e
                \<and> published (snd (handler event request_id w)) = published w3
                \<and> db_log (snd (handler event request_id w)) =
                    db_log w3 @
                    [GetConnection (Connection (in_use w3)), OpenCursor (Connection (in_use w3)),
                     Execute fn (strftime_Ymd (clock w3 (clock_reads w3) - 86400) @ ''%''),
                     CloseCursor (Connection (in_use w3))] @
                    (if e = DatabaseError
                     then [Rollback (Connection (in_use w3)),
                           CloseConnection (Connection (in_use w3))]
                     else [CloseConnection (Connection (in_use w3))])"
  proof (intro allI impI)
    fix pre fn post e p w3
    assume h: "FUNCTIONS_TO_CHECK = pre @ fn # post \<and> check_functions pre w2 = (Inr (), w3)
              \<and> POOL w3 = Some p \<and> int (in_use w3) < pool_size p
              \<and> select_runAudits w3 fn
                  (strftime_Ymd (clock w3 (clock_reads w3) - 86400) @ ''%'') = Inl e"
    let ?w4 = "snd (prior_day_calls fn w3)"
    from h have pd: "prior_day_calls fn w3 =
        (Inl e,
         w3\<lparr>clock_reads := Suc (clock_reads w3),
           db_log := db_log w3 @
             [GetConnection (Connection (in_use w3)), OpenCursor (Connection (in_use w3)),
              Execute fn (strftime_Ymd (clock w3 (clock_reads w3) - 86400) @ ''%''),
              CloseCursor (Connection (in_use w3))] @
             (if e = DatabaseError
              then [Rollback (Connection (in_use w3)), CloseConnection (Connection (in_use w3))]
              else [CloseConnection (Connection (in_use w3))])\<rparr>)"
      using prior_day_calls_error [of w3 p fn e] by simp
    then have "check_function fn w3 = (Inl e, ?w4)"
      by (simp add: check_function_def)
    with h have "handler event request_id w = (Inl e, ?w4)"
      using fail [of pre fn post w3 e ?w4] by simp
    with pd show "fst (handler event request_id w) = Inl e
                \<and> published (snd (handler event request_id w)) = published w3
                \<and> db_log (snd (handler event request_id w)) =
                    db_log w3 @
                    [GetConnection (Connection (in_use w3)), OpenCursor (Connection (in_use w3)),
                     Execute fn (strftime_Ymd (clock w3 (clock_reads w3) - 86400) @ ''%''),
                     CloseCursor (Connection (in_use w3))] @
                    (if e = DatabaseError
                     then [Rollback (Connection (in_use w3)),
                           CloseConnection (Connection (in_use w3))]
                     else [CloseConnection (Connection (in_use w3))])"
      by simp
  qed
  have d: "\<forall>w3. check_functions FUNCTIONS_TO_CHECK w2 = (Inr (), w3)
            \<longrightarrow> handler event request_id w =
                (Inr \<lparr>status_code = 200, body = ''Health check completed successfully''\<rparr>, w3)"
    using assms by (simp add: handler_def)
  have e: "check_functions FUNCTIONS_TO_CHECK =
      seq (check_function ''ENWL_power_scraper'') (check_function ''live_station_scraper'')"
    by (rule ext) (simp add: FUNCTIONS_TO_CHECK_def seq_def split: prod.splits sum.splits)
  have f: "\<forall>fn w3. check_function fn w3 =
            (case prior_day_calls fn w3 of
               (Inl e, w4) \<Rightarrow> (Inl e, w4)
             | (Inr rows, w4) \<Rightarrow> threshold_checker (query_parser rows fn) rows fn w4)"
    by (simp add: check_function_def)
  from a b c d e f show ?thesis
    by (intro conjI)
qed

theorem handler_fails_fast_witness:
  "fst (handler () ''request-1'' scenario_world) = Inl ZeroDivisionError
   \<and> snd (handler () ''request-1'' scenario_world) =
       snd (prior_day_calls ''live_station_scraper''
         (snd (check_function ''ENWL_power_scraper'' scenario_world)))
   \<and> fst (handler () ''request-1''
        (scenario_world\<lparr>select_runAudits :=
           \<lambda>fn pattern. Inl (LibraryError ''OperationalError'')\<rparr>)) =
       Inl (LibraryError ''OperationalError'')
   \<and> snd (handler () ''request-1''
        (scenario_world\<lparr>select_runAudits :=
           \<lambda>fn pattern. Inl (LibraryError ''OperationalError'')\<rparr>)) =
       snd (prior_day_calls ''ENWL_power_scraper''
        (scenario_world\<lparr>select_runAudits :=
           \<lambda>fn pattern. Inl (LibraryError ''OperationalError'')\<rparr>))
   \<and> published (snd (handler () ''request-1''
        (scenario_world\<lparr>select_runAudits :=
           \<lambda>fn pattern. Inl (LibraryError ''OperationalError'')\<rparr>))) = []
   \<and> db_log (snd (handler () ''request-1''
        (scenario_world\<lparr>select_runAudits :=
           \<lambda>fn pattern. Inl (LibraryError ''OperationalError'')\<rparr>))) =
       [GetConnection (Connection 0), OpenCursor (Connection 0),
        Execute ''ENWL_power_scraper'' ''2025-10-26%'', CloseCursor (Connection 0),
        CloseConnection (Connection 0)]
   \<and> fst (handler () ''request-1''
        (scenario_world\<lparr>select_runAudits := \<lambda>fn pattern. Inr [scenario_row]\<rparr>)) =
       Inr \<lparr>status_code = 200, body = ''Health check completed successfully''\<rparr>"
proof -
  let ?cfg = "\<lparr>host = ''db.internal'', user = ''checker'', password = ''pw'',
    database = ''audit''\<rparr>"
  let ?B = "scenario_world\<lparr>select_runAudits := \<lambda>fn pattern. Inr [scenario_row]\<rparr>"
  let ?C = "scenario_world\<lparr>select_runAudits :=
    \<lambda>fn pattern. Inl (LibraryError ''OperationalError'')\<rparr>"
  let ?W2 = "snd (check_function ''ENWL_power_scraper'' scenario_world)"
  let ?W3 = "snd (prior_day_calls ''live_station_scraper'' ?W2)"
  let ?W4 = "snd (prior_day_calls ''ENWL_power_scraper'' ?C)"
  have gA: "get_db_config scenario_world = (Inr ?cfg, scenario_world)"
    using scenario_get_db_config [of "select_runAudits scenario_world"] by simp
  have iA: "init_pool ?cfg scenario_world = (Inr (), scenario_world)"
    using scenario_init_pool [of ?cfg "select_runAudits scenario_world"] by simp
  have dA: "FUNCTIONS_TO_CHECK = [''ENWL_power_scraper''] @ ''live_station_scraper'' # []"
    by (simp add: FUNCTIONS_TO_CHECK_def)
  have c1: "check_functions [''ENWL_power_scraper''] scenario_world = (Inr (), ?W2)"
    using scenario_first_then_second(1) by (simp add: prod_eq_iff split: prod.splits sum.splits)
  have c2: "prior_day_calls ''live_station_scraper'' ?W2 = (Inr [], ?W3)"
    using scenario_second_fetch by (simp add: prod_eq_iff)
  have c3: "threshold_checker (query_parser [] ''live_station_scraper'') []
      ''live_station_scraper'' ?W3 = (Inl ZeroDivisionError, ?W3)"
    by (rule threshold_checker_Nil)
  have failA: "handler () ''request-1'' scenario_world = (Inl ZeroDivisionError, ?W3)"
    using handler_fails_fast [OF gA iA, of "()" "''request-1''"] dA c1 c2 c3 by blast
  have gC: "get_db_config ?C = (Inr ?cfg, ?C)"
    by (rule scenario_get_db_config)
  have iC: "init_pool ?cfg ?C = (Inr (), ?C)"
    by (rule scenario_init_pool)
  have dC: "FUNCTIONS_TO_CHECK = [] @ ''ENWL_power_scraper'' # [''live_station_scraper'']"
    by (simp add: FUNCTIONS_TO_CHECK_def)
  have c4: "check_functions [] ?C = (Inr (), ?C)"
    by simp
  have pC: "POOL ?C = Some scenario_pool"
    by (simp add: scenario_world_def)
  have uC: "int (in_use ?C) < pool_size scenario_pool"
    by (simp add: scenario_world_def scenario_pool_def)
  have sC: "select_runAudits ?C ''ENWL_power_scraper''
      (strftime_Ymd (clock ?C (clock_reads ?C) - 86400) @ ''%'') =
      Inl (LibraryError ''OperationalError'')"
    by simp
  have c5: "prior_day_calls ''ENWL_power_scraper'' ?C =
      (Inl (LibraryError ''OperationalError''), ?W4)"
    by (simp add: prior_day_calls_error [OF pC uC sC])
  have failC: "handler () ''request-1'' ?C = (Inl (LibraryError ''OperationalError''), ?W4)"
    by (rule handler_fails_fast [OF gC iC, of "()" "''request-1''", THEN conjunct1, rule_format,
          OF conjI [OF dC conjI [OF c4 c5]]])
  have logC: "fst (handler () ''request-1'' ?C) = Inl (LibraryError ''OperationalError'')
      \<and> published (snd (handler () ''request-1'' ?C)) = published ?C
      \<and> db_log (snd (handler () ''request-1'' ?C)) =
          db_log ?C @
          [GetConnection (Connection (in_use ?C)), OpenCursor (Connection (in_use ?C)),
           Execute ''ENWL_power_scraper''
             (strftime_Ymd (clock ?C (clock_reads ?C) - 86400) @ ''%''),
           CloseCursor (Connection (in_use ?C))] @
          (if LibraryError ''OperationalError'' = DatabaseError
           then [Rollback (Connection (in_use ?C)), CloseConnection (Connection (in_use ?C))]
           else [CloseConnection (Connection (in_use ?C))])"
    by (rule handler_fails_fast [OF gC iC, of "()" "''request-1''", THEN conjunct2,
          THEN conjunct2, THEN conjunct1, rule_format,
          OF conjI [OF dC conjI [OF c4 conjI [OF pC conjI [OF uC sC]]]]])
  have gB: "get_db_config ?B = (Inr ?cfg, ?B)"
    by (rule scenario_get_db_config)
  have iB: "init_pool ?cfg ?B = (Inr (), ?B)"
    by (rule scenario_init_pool)
  have c6: "check_functions FUNCTIONS_TO_CHECK ?B =
      (Inr (), snd (check_functions FUNCTIONS_TO_CHECK ?B))"
    using scenario_all_rows by (simp add: prod_eq_iff)
  have ok: "handler () ''request-1'' ?B =
      (Inr \<lparr>status_code = 200, body = ''Health check completed successfully''\<rparr>,
       snd (check_functions FUNCTIONS_TO_CHECK ?B))"
    using handler_fails_fast [OF gB iB, of "()" "''request-1''"] c6 by blast
  have logC': "published (snd (handler () ''request-1'' ?C)) = []
      \<and> db_log (snd (handler () ''request-1'' ?C)) =
       [GetConnection (Connection 0), OpenCursor (Connection 0),
        Execute ''ENWL_power_scraper'' ''2025-10-26%'', CloseCursor (Connection 0),
        CloseConnection (Connection 0)]"
    using logC by (simp add: scenario_world_def scenario_yesterday)
  from failA failC logC' ok show ?thesis by simp
qed

section \<open>Schedule comparison\<close>

lemma exp_times_loop_eq:
  "exp_times_loop s e acc =
     acc @ map (\<lambda>k. s + 180 * int k) [0..<nat ((e + 86400 - s + 179) div 180)]"
proof (induction s e acc rule: exp_times_loop.induct)
  case (1 s e acc)
  show ?case
  proof (cases "s < e + 86400")
    case True
    let ?n = "nat ((e + 86400 - s + 179) div 180)"
    let ?m = "nat ((e + 86400 - (s + 180) + 179) div 180)"
    from True have n: "?n = Suc ?m" by (simp add: nat_eq_iff) linarith
    have "exp_times_loop s e acc = exp_times_loop (s + 180) e (acc @ [s])"
      using True by (subst exp_times_loop.simps) simp
    also have "\<dots> = (acc @ [s]) @ map (\<lambda>k. s + 180 + 180 * int k) [0..<?m]"
      using "1.IH" [OF True] by simp
    also have "\<dots> = acc @ map (\<lambda>k. s + 180 * int k) [0..<Suc ?m]"
      by (simp add: upt_conv_Cons map_Suc_upt [symmetric] del: upt_Suc)
    finally show ?thesis by (simp only: n)
  next
    case False
    then have "nat ((e + 86400 - s + 179) div 180) = 0" by simp
    with False show ?thesis by (subst exp_times_loop.simps) simp
  qed
qed

lemma exp_times_loop_day:
  "exp_times_loop t0 t0 [] = map (\<lambda>k. t0 + 180 * int k) [0..<480]"
  by (simp add: exp_times_loop_eq)

lemma rate_5_minutes_parse:
  "str_contains ''rate'' ''rate(5 minutes)''"
  "split_char (CHR ''('') ''rate(5 minutes)'' = [''rate'', ''5 minutes)'']"
  "split_ws [] (rstrip_char (CHR '')'') ''5 minutes)'') = [''5'', ''minutes'']"
  by (simp_all add: starts_with_def rstrip_char_def is_space_def)

lemma generate_exp_times_unsupported:
  assumes "relative_start_time fn w = (Inr t0, w1)"
    and "get_schedule w1 SCHEDULE_NAME = Inr response"
    and "get_schedule_expression response = Inr rate_expression"
  shows "\<not> str_contains ''rate'' rate_expression \<Longrightarrow>
           generate_exp_times fn w = (Inl NotImplementedError, w1)"
    and "str_contains ''rate'' rate_expression \<Longrightarrow>
         split_char (CHR ''('') rate_expression = p0 # p1 # rest \<Longrightarrow>
         split_ws [] (rstrip_char (CHR '')'') p1) = [rate_value, rate] \<Longrightarrow>
         rate \<noteq> ''minutes'' \<Longrightarrow>
           generate_exp_times fn w = (Inl NotImplementedError, w1)"
  using assms by (simp_all add: generate_exp_times_def get_event_bridge_schedule_def)

text \<open>
  C9. Once the earliest prior-day start time \<open>t0\<close> is known and the schedule expression
  reads as a rate in minutes, that is, it contains \<^verbatim>\<open>rate\<close> and the text between its first
  parenthesis and the closing one splits into a value and the word \<^verbatim>\<open>minutes\<close>,
  \<open>generate_exp_times\<close> returns the 480 times \<open>t0\<close>, \<open>t0 + 180\<close>, \<open>t0 + 360\<close>, ... (in seconds),
  every one of them before \<open>t0\<close> plus one day: they start at the earliest call and cover one
  day, but consecutive times are always 3 minutes apart, whatever value the expression
  gives. The value is parsed and never used.
\<close>

theorem generate_exp_times_fixed_step:
  assumes "relative_start_time fn w = (Inr t0, w1)"
    and "get_schedule w1 SCHEDULE_NAME = Inr response"
    and "get_schedule_expression response = Inr rate_expression"
    and "str_contains ''rate'' rate_expression"
    and "split_char (CHR ''('') rate_expression = p0 # p1 # rest"
    and "split_ws [] (rstrip_char (CHR '')'') p1) = [rate_value, ''minutes'']"
  shows "generate_exp_times fn w = (Inr (map (\<lambda>k. t0 + 180 * int k) [0..<480]), w1)
    \<and> (\<forall>t \<in> set (map (\<lambda>k. t0 + 180 * int k) [0..<480]). t0 \<le> t \<and> t < t0 + 86400)"
proof
  show "generate_exp_times fn w = (Inr (map (\<lambda>k. t0 + 180 * int k) [0..<480]), w1)"
    using assms
    by (simp add: generate_exp_times_def get_event_bridge_schedule_def exp_times_loop_day)
  show "\<forall>t \<in> set (map (\<lambda>k. t0 + 180 * int k) [0..<480]). t0 \<le> t \<and> t < t0 + 86400"
    by auto
qed

theorem generate_exp_times_fixed_step_witness:
  "fst (generate_exp_times ''ENWL_power_scraper'' scenario_world) =
     Inr (map (\<lambda>k. 1761457726 + 180 * int k) [0..<480])
   \<and> map (\<lambda>k. 1761457726 + 180 * int k) [0..<480] ! 1 -
     map (\<lambda>k. 1761457726 + 180 * int k) [0..<480] ! 0 = 180
   \<and> length (map (\<lambda>k. 1761457726 + 180 * int k) [0..<480]) = 480
   \<and> get_schedule scenario_world SCHEDULE_NAME =
     Inr [(''ScheduleExpression'', ''rate(5 minutes)'')]"
proof -
  let ?w1 = "snd (prior_day_calls ''ENWL_power_scraper'' scenario_world)"
  have p: "POOL scenario_world = Some scenario_pool"
    by (simp add: scenario_world_def)
  have u: "int (in_use scenario_world) < pool_size scenario_pool"
    by (simp add: scenario_world_def scenario_pool_def)
  have s: "select_runAudits scenario_world ''ENWL_power_scraper''
      (strftime_Ymd (clock scenario_world (clock_reads scenario_world) - 86400) @ ''%'')
      = Inr [scenario_row]"
    by (simp add: scenario_world_def scenario_yesterday)
  have r: "relative_start_time ''ENWL_power_scraper'' scenario_world = (Inr 1761457726, ?w1)"
    by (simp add: relative_start_time_def prior_day_calls_ok [OF p u s] scenario_row_def)
  have g0: "get_schedule scenario_world SCHEDULE_NAME =
      Inr [(''ScheduleExpression'', ''rate(5 minutes)'')]"
    by (simp add: scenario_world_def SCHEDULE_NAME_def)
  have g: "get_schedule ?w1 SCHEDULE_NAME = Inr [(''ScheduleExpression'', ''rate(5 minutes)'')]"
    using g0 by (simp add: prior_day_calls_ok [OF p u s])
  have x: "get_schedule_expression [(''ScheduleExpression'', ''rate(5 minutes)'')] =
      Inr ''rate(5 minutes)''"
    by (simp add: get_schedule_expression_def lookup_def)
  have "generate_exp_times ''ENWL_power_scraper'' scenario_world =
      (Inr (map (\<lambda>k. 1761457726 + 180 * int k) [0..<480]), ?w1)"
    using generate_exp_times_fixed_step [OF r g x rate_5_minutes_parse] by (rule conjunct1)
  with g0 show ?thesis by simp
qed

end
